theory Spec2Isabelle
  imports Main
begin

section \<open>JavaScript values and the object heap\<close>

text \<open>
  The proxy service copies request and response objects with the spread operator, and
  the script service hands the caller's context object to Node's \<^verbatim>\<open>vm\<close> module. What
  these functions promise depends on which objects are shared, so objects live in an
  explicit heap: an address names an object, an object is the list of its own enumerable
  properties in insertion order. An array is an object whose keys are its indices.
  Numbers are integers (the payloads are opaque to the services; only whether a number
  is zero matters to them).
\<close>

type_synonym addr = nat

datatype jsval = Undefined | Null | Bool bool | Num int | Str string | Ref addr

type_synonym props = "(string \<times> jsval) list"

type_synonym heap = "props list"

text \<open>JavaScript's \<^verbatim>\<open>ToBoolean\<close>: what \<^verbatim>\<open>x ? a : b\<close> and \<^verbatim>\<open>!x\<close> test.\<close>

fun truthy :: "jsval \<Rightarrow> bool" where
  "truthy Undefined = False"
| "truthy Null = False"
| "truthy (Bool b) = b"
| "truthy (Num n) = (n \<noteq> 0)"
| "truthy (Str s) = (s \<noteq> [])"
| "truthy (Ref a) = True"

fun typeof :: "jsval \<Rightarrow> string" where
  "typeof Undefined = ''undefined''"
| "typeof Null = ''object''"
| "typeof (Bool b) = ''boolean''"
| "typeof (Num n) = ''number''"
| "typeof (Str s) = ''string''"
| "typeof (Ref a) = ''object''"

definition cell :: "heap \<Rightarrow> addr \<Rightarrow> props" where
  "cell h a = (if a < length h then h ! a else [])"

text \<open>
  \<^verbatim>\<open>o.k\<close>. The services read properties only of values they have checked to be
  objects; a key that is not an own property reads as \<^verbatim>\<open>undefined\<close>.
\<close>

fun get_prop :: "heap \<Rightarrow> jsval \<Rightarrow> string \<Rightarrow> jsval" where
  "get_prop h (Ref a) k = (case map_of (cell h a) k of None \<Rightarrow> Undefined | Some v \<Rightarrow> v)"
| "get_prop h v k = Undefined"

text \<open>
  Defining a property: an existing key keeps its place and takes the new value, a new
  key goes to the end.
\<close>

fun put :: "string \<Rightarrow> 'v \<Rightarrow> (string \<times> 'v) list \<Rightarrow> (string \<times> 'v) list" where
  "put k v [] = [(k, v)]"
| "put k v ((k', v') # ps) = (if k' = k then (k, v) # ps else (k', v') # put k v ps)"

fun remove :: "string \<Rightarrow> (string \<times> 'v) list \<Rightarrow> (string \<times> 'v) list" where
  "remove k [] = []"
| "remove k ((k', v') # ps) = (if k' = k then ps else (k', v') # remove k ps)"

fun show_nat :: "nat \<Rightarrow> string" where
  "show_nat n =
     (if n < 10 then [''0123456789'' ! n]
      else show_nat (n div 10) @ [''0123456789'' ! (n mod 10)])"

declare show_nat.simps [simp del]

text \<open>
  The own enumerable properties that \<^verbatim>\<open>{...v}\<close> copies: those of an object, the
  indexed characters of a string, none of any other value (\<^verbatim>\<open>undefined\<close> and
  \<^verbatim>\<open>null\<close> included).
\<close>

fun spread :: "heap \<Rightarrow> jsval \<Rightarrow> props" where
  "spread h (Ref a) = cell h a"
| "spread h (Str s) = zip (map show_nat [0..<length s]) (map (\<lambda>c. Str [c]) s)"
| "spread h v = []"

definition alloc :: "heap \<Rightarrow> props \<Rightarrow> jsval \<times> heap" where
  "alloc h ps = (Ref (length h), h @ [ps])"

text \<open>What a caller can do to an object it holds: write a property or delete one.\<close>

datatype mutation = SetProp addr string jsval | DeleteProp addr string

fun target :: "mutation \<Rightarrow> addr" where
  "target (SetProp a k v) = a"
| "target (DeleteProp a k) = a"

fun mutate :: "heap \<Rightarrow> mutation \<Rightarrow> heap" where
  "mutate h (SetProp a k v) = (if a < length h then h[a := put k v (h ! a)] else h)"
| "mutate h (DeleteProp a k) = (if a < length h then h[a := remove k (h ! a)] else h)"

definition mutate_all :: "heap \<Rightarrow> mutation list \<Rightarrow> heap" where
  "mutate_all h ms = foldl mutate h ms"

text \<open>\<^verbatim>\<open>v.k1.k2...\<close>, read along a path of keys.\<close>

definition read_path :: "heap \<Rightarrow> jsval \<Rightarrow> string list \<Rightarrow> jsval" where
  "read_path h v ks = foldl (get_prop h) v ks"

section \<open>The document store\<close>

text \<open>
  Both models are Mongoose models. A stored document is a list of fields; a field value
  is a string, a number, a date (milliseconds), a boolean, null, or a nested map
  (the schema types \<^verbatim>\<open>Map\<close> and \<^verbatim>\<open>Mixed\<close>). Objects handed to the store are given in
  the same form.
\<close>

datatype fval = FStr string | FNum int | FDate int | FBool bool | FNull
  | FObj "(string \<times> fval) list"

type_synonym doc = "(string \<times> fval) list"

datatype kind = KString | KNumber | KDate | KMap | KMixed

record path_spec =
  pname :: string
  pkind :: kind
  prequired :: bool
  punique :: bool
  ptrim :: bool
  pdefault_now :: bool
  pvalidate :: "fval \<Rightarrow> bool"

type_synonym schema = "path_spec list"

record collection =
  docs :: "(nat \<times> doc) list"
  next_id :: nat

datatype error =
    InvalidRequestError string
  | ProxyConfigurationError string
  | ProxyTrafficLogError string
  | InvalidScriptError string
  | ScriptExecutionError string

text \<open>
  The state the services act on: the object heap, the collection behind the
  \<^verbatim>\<open>ProxyConfig\<close> model, the collection behind the \<^verbatim>\<open>Userscript\<close> model, and the
  requests handed to \<^verbatim>\<open>makeHttpRequest\<close> so far.
\<close>

record world =
  heap :: heap
  proxyConfigs :: collection
  userscripts :: collection
  forwarded :: "doc list"

section \<open>proxyService: modifying and injecting\<close>

text \<open>
  \<^verbatim>\<open>modifyProxyRequest\<close>, \<^verbatim>\<open>modifyProxyResponse\<close> and \<^verbatim>\<open>injectCustomResponse\<close>:
  the guard \<^verbatim>\<open>!data || typeof data !== 'object'\<close>, then the object literal
  \<^verbatim>\<open>{ ...data, headers: { ...data.headers }, body: data.body ? { ...data.body } : null }\<close>.
  Each object literal allocates one new object; the properties are read from the
  objects that existed before the call.
\<close>

definition modifyProxyRequest :: "jsval \<Rightarrow> world \<Rightarrow> (error + jsval) \<times> world" where
  "modifyProxyRequest requestData w =
     (if \<not> truthy requestData \<or> typeof requestData \<noteq> ''object''
      then (Inl (InvalidRequestError ''Invalid request data''), w)
      else
        let h0 = heap w;
            (headers', h1) = alloc h0 (spread h0 (get_prop h0 requestData ''headers''));
            (body', h2) =
              (if truthy (get_prop h0 requestData ''body'')
               then alloc h1 (spread h0 (get_prop h0 requestData ''body''))
               else (Null, h1));
            (modifiedRequest, h3) =
              alloc h2 (put ''body'' body' (put ''headers'' headers' (spread h0 requestData)))
        in (Inr modifiedRequest, w\<lparr>heap := h3\<rparr>))"

definition modifyProxyResponse :: "jsval \<Rightarrow> world \<Rightarrow> (error + jsval) \<times> world" where
  "modifyProxyResponse responseData w =
     (if \<not> truthy responseData \<or> typeof responseData \<noteq> ''object''
      then (Inl (InvalidRequestError ''Invalid response data''), w)
      else
        let h0 = heap w;
            (headers', h1) = alloc h0 (spread h0 (get_prop h0 responseData ''headers''));
            (body', h2) =
              (if truthy (get_prop h0 responseData ''body'')
               then alloc h1 (spread h0 (get_prop h0 responseData ''body''))
               else (Null, h1));
            (modifiedResponse, h3) =
              alloc h2 (put ''body'' body' (put ''headers'' headers' (spread h0 responseData)))
        in (Inr modifiedResponse, w\<lparr>heap := h3\<rparr>))"

definition injectCustomResponse :: "jsval \<Rightarrow> world \<Rightarrow> (error + jsval) \<times> world" where
  "injectCustomResponse responseData w =
     (if \<not> truthy responseData \<or> typeof responseData \<noteq> ''object''
      then (Inl (InvalidRequestError ''Invalid response data''), w)
      else
        let h0 = heap w;
            (headers', h1) = alloc h0 (spread h0 (get_prop h0 responseData ''headers''));
            (body', h2) =
              (if truthy (get_prop h0 responseData ''body'')
               then alloc h1 (spread h0 (get_prop h0 responseData ''body''))
               else (Null, h1));
            (customResponse, h3) =
              alloc h2 (put ''body'' body' (put ''headers'' headers' (spread h0 responseData)))
        in (Inr customResponse, w\<lparr>heap := h3\<rparr>))"

section \<open>Mongoose: schemas, documents, queries\<close>

text \<open>
  What the services rely on from Mongoose 8 and MongoDB, as their documentation
  states it:
  \<^item> \<^verbatim>\<open>new Model(obj)\<close> keeps only the paths of the schema (strict mode, the default),
    runs the setters (\<^verbatim>\<open>trim\<close>) and fills the defaults (\<^verbatim>\<open>Date.now\<close>);
  \<^item> \<^verbatim>\<open>save()\<close> validates the document (\<^verbatim>\<open>required\<close>, \<^verbatim>\<open>min\<close>/\<^verbatim>\<open>max\<close>,
    \<^verbatim>\<open>validate\<close>) and inserts it; the insert fails on a unique index;
  \<^item> \<^verbatim>\<open>findOneAndUpdate\<close> sets the given schema paths on the first matching
    document; it runs validators only with \<^verbatim>\<open>runValidators: true\<close>; with
    \<^verbatim>\<open>upsert: true\<close> it inserts a document when none matches;
  \<^item> a query condition on a field that a document does not have is false.
  A value is given with the type of its path; Mongoose's conversions between types are
  not modelled, a value of another type is a cast error. The clock reading
  (\<^verbatim>\<open>Date.now()\<close>) is an argument. Faults of the storage engine are not modelled.
\<close>

datatype store_error = ValidationError | CastError | DuplicateKey

fun conforms :: "kind \<Rightarrow> fval \<Rightarrow> bool" where
  "conforms k FNull = True"
| "conforms KMixed v = True"
| "conforms KString (FStr s) = True"
| "conforms KNumber (FNum n) = True"
| "conforms KDate (FDate t) = True"
| "conforms KMap (FObj m) = True"
| "conforms k v = False"

definition is_space :: "char \<Rightarrow> bool" where
  "is_space c = (c \<in> set [CHR 0x09, CHR 0x0A, CHR 0x0B, CHR 0x0C, CHR 0x0D, CHR 0x20])"

definition trim :: "string \<Rightarrow> string" where
  "trim s = rev (dropWhile is_space (rev (dropWhile is_space s)))"

definition set_value :: "path_spec \<Rightarrow> fval \<Rightarrow> fval" where
  "set_value p v = (case v of FStr s \<Rightarrow> if ptrim p then FStr (trim s) else v | _ \<Rightarrow> v)"

text \<open>The schema paths of an object, cast and set; \<open>None\<close> when a value does not cast.\<close>

fun cast_fields :: "schema \<Rightarrow> doc \<Rightarrow> doc option" where
  "cast_fields [] obj = Some []"
| "cast_fields (p # ps) obj =
     (case cast_fields ps obj of
        None \<Rightarrow> None
      | Some d \<Rightarrow>
          (case map_of obj (pname p) of
             None \<Rightarrow> Some d
           | Some v \<Rightarrow>
               if conforms (pkind p) v then Some ((pname p, set_value p v) # d) else None))"

definition with_defaults :: "schema \<Rightarrow> int \<Rightarrow> doc \<Rightarrow> doc" where
  "with_defaults sch now d =
     d @ map (\<lambda>p. (pname p, FDate now))
           (filter (\<lambda>p. pdefault_now p \<and> map_of d (pname p) = None) sch)"

text \<open>\<^verbatim>\<open>new Model(obj)\<close>; a cast error is kept in the document and reported by \<^verbatim>\<open>save\<close>.\<close>

definition new_model :: "schema \<Rightarrow> int \<Rightarrow> doc \<Rightarrow> doc option" where
  "new_model sch now obj = map_option (with_defaults sch now) (cast_fields sch obj)"

definition required_ok :: "fval option \<Rightarrow> bool" where
  "required_ok v =
     (case v of None \<Rightarrow> False | Some FNull \<Rightarrow> False | Some (FStr s) \<Rightarrow> s \<noteq> []
      | Some _ \<Rightarrow> True)"

definition value_ok :: "path_spec \<Rightarrow> fval option \<Rightarrow> bool" where
  "value_ok p v = (case v of None \<Rightarrow> True | Some FNull \<Rightarrow> True | Some x \<Rightarrow> pvalidate p x)"

definition path_ok :: "path_spec \<Rightarrow> doc \<Rightarrow> bool" where
  "path_ok p d =
     ((if prequired p then required_ok (map_of d (pname p)) else True)
      \<and> value_ok p (map_of d (pname p)))"

definition validate :: "schema \<Rightarrow> doc \<Rightarrow> bool" where
  "validate sch d = list_all (\<lambda>p. path_ok p d) sch"

text \<open>Update validators look only at the paths the update sets.\<close>

definition update_valid :: "schema \<Rightarrow> doc \<Rightarrow> bool" where
  "update_valid sch u =
     list_all (\<lambda>p. map_of u (pname p) = None \<or> path_ok p u) sch"

text \<open>A unique index: a missing field is indexed as null.\<close>

definition index_key :: "string \<Rightarrow> doc \<Rightarrow> fval" where
  "index_key k d = (case map_of d k of None \<Rightarrow> FNull | Some v \<Rightarrow> v)"

definition key_taken :: "schema \<Rightarrow> (nat \<times> doc) list \<Rightarrow> doc \<Rightarrow> bool" where
  "key_taken sch ds d =
     list_ex (\<lambda>p. punique p \<and>
        list_ex (\<lambda>s. index_key (pname p) (snd s) = index_key (pname p) d) ds) sch"

definition save :: "schema \<Rightarrow> doc option \<Rightarrow> collection
    \<Rightarrow> store_error + ((nat \<times> doc) \<times> collection)" where
  "save sch document c =
     (case document of
        None \<Rightarrow> Inl ValidationError
      | Some d \<Rightarrow>
          if \<not> validate sch d then Inl ValidationError
          else if key_taken sch (docs c) d then Inl DuplicateKey
          else Inr ((next_id c, d),
                    c\<lparr>docs := docs c @ [(next_id c, d)], next_id := Suc (next_id c)\<rparr>))"

fun update_first :: "('a \<Rightarrow> bool) \<Rightarrow> 'a \<Rightarrow> 'a list \<Rightarrow> 'a list" where
  "update_first P y [] = []"
| "update_first P y (x # xs) = (if P x then y # xs else x # update_first P y xs)"


definition apply_update :: "doc \<Rightarrow> doc \<Rightarrow> doc" where
  "apply_update u d = foldl (\<lambda>d' kv. put (fst kv) (snd kv) d') d u"

definition findOneAndUpdate :: "schema \<Rightarrow> bool \<Rightarrow> bool \<Rightarrow> int \<Rightarrow> (nat \<times> doc \<Rightarrow> bool)
    \<Rightarrow> doc \<Rightarrow> collection \<Rightarrow> store_error + ((nat \<times> doc) option \<times> collection)" where
  "findOneAndUpdate sch runValidators upsert now flt update c =
     (case cast_fields sch update of
        None \<Rightarrow> Inl CastError
      | Some u \<Rightarrow>
          if runValidators \<and> \<not> update_valid sch u then Inl ValidationError
          else
            (case find flt (docs c) of
               Some s \<Rightarrow>
                 let d' = apply_update u (snd s) in
                 if key_taken sch (filter (\<lambda>s'. fst s' \<noteq> fst s) (docs c)) d'
                 then Inl DuplicateKey
                 else Inr (Some (fst s, d'),
                           c\<lparr>docs := update_first flt (fst s, d') (docs c)\<rparr>)
             | None \<Rightarrow>
                 if upsert then
                   let d' = with_defaults sch now u in
                   if key_taken sch (docs c) d' then Inl DuplicateKey
                   else Inr (Some (next_id c, d'),
                             c\<lparr>docs := docs c @ [(next_id c, d')],
                               next_id := Suc (next_id c)\<rparr>)
                 else Inr (None, c)))"

text \<open>Query conditions: \<^verbatim>\<open>{$gte, $lte}\<close> on a date, \<^verbatim>\<open>$regex\<close>, equality.\<close>

datatype cond = Between int int | Regex "string \<Rightarrow> bool" | Equals fval

fun holds :: "cond \<Rightarrow> fval option \<Rightarrow> bool" where
  "holds (Between lo hi) (Some (FDate t)) = (lo \<le> t \<and> t \<le> hi)"
| "holds (Regex m) (Some (FStr s)) = m s"
| "holds (Equals v) (Some x) = (x = v)"
| "holds c v = False"

definition matches :: "(string \<times> cond) list \<Rightarrow> doc \<Rightarrow> bool" where
  "matches q d = list_all (\<lambda>kc. holds (snd kc) (map_of d (fst kc))) q"

definition created :: "nat \<times> doc \<Rightarrow> int" where
  "created s = (case map_of (snd s) ''createdAt'' of Some (FDate t) \<Rightarrow> t | _ \<Rightarrow> 0)"

text \<open>
  \<^verbatim>\<open>.sort({ createdAt: -1 })\<close>: newest first; documents with the same date keep the
  order of the collection. \<^verbatim>\<open>.limit(0)\<close> is no limit, a negative limit counts as its
  absolute value.
\<close>

definition sort_newest :: "(nat \<times> doc) list \<Rightarrow> (nat \<times> doc) list" where
  "sort_newest ds = sort_key (\<lambda>s. - created s) ds"

definition limit_to :: "int \<Rightarrow> 'a list \<Rightarrow> 'a list" where
  "limit_to l xs = (if l = 0 then xs else take (nat \<bar>l\<bar>) xs)"

section \<open>The schemas\<close>

definition alnum :: string where
  "alnum = ''abcdefghijklmnopqrstuvwxyzABCDEFGHIJKLMNOPQRSTUVWXYZ0123456789''"

definition is_label_char :: "char \<Rightarrow> bool" where
  "is_label_char c = (c \<in> set alnum \<or> c = CHR ''-'')"

text \<open>
  \<^verbatim>\<open>/^[a-zA-Z0-9-]+(\.[a-zA-Z0-9-]+)*$/\<close> of \<^verbatim>\<open>proxyConfigSchema\<close>, as the automaton
  that reads the string: the flag says that a label character must come next.
\<close>

fun hostname_from :: "bool \<Rightarrow> string \<Rightarrow> bool" where
  "hostname_from need [] = (\<not> need)"
| "hostname_from need (c # cs) =
     (if is_label_char c then hostname_from False cs
      else if c = CHR ''.'' \<and> \<not> need then hostname_from True cs
      else False)"

definition hostname_ok :: "string \<Rightarrow> bool" where
  "hostname_ok s = hostname_from True s"

text \<open>\<^verbatim>\<open>/^[\w\-]+$/\<close> of \<^verbatim>\<open>userscriptSchema\<close>.\<close>

definition name_ok :: "string \<Rightarrow> bool" where
  "name_ok s = (s \<noteq> [] \<and> list_all (\<lambda>c. c \<in> set alnum \<or> c = CHR ''_'' \<or> c = CHR ''-'') s)"

definition plain_path :: "string \<Rightarrow> kind \<Rightarrow> path_spec" where
  "plain_path n k = \<lparr>pname = n, pkind = k, prequired = False, punique = False,
     ptrim = False, pdefault_now = False, pvalidate = (\<lambda>v. True)\<rparr>"

definition proxyConfigSchema :: schema where
  "proxyConfigSchema =
     [(plain_path ''targetHostname'' KString)
        \<lparr>prequired := True,
         pvalidate := (\<lambda>v. case v of FStr s \<Rightarrow> hostname_ok s | _ \<Rightarrow> False)\<rparr>,
      (plain_path ''targetPort'' KNumber)
        \<lparr>prequired := True,
         pvalidate := (\<lambda>v. case v of FNum n \<Rightarrow> 1 \<le> n \<and> n \<le> 65535 | _ \<Rightarrow> False)\<rparr>,
      plain_path ''requestModifications'' KMap,
      plain_path ''responseModifications'' KMap,
      (plain_path ''createdAt'' KDate)\<lparr>pdefault_now := True\<rparr>,
      (plain_path ''updatedAt'' KDate)\<lparr>pdefault_now := True\<rparr>]"

definition userscriptSchema :: schema where
  "userscriptSchema =
     [(plain_path ''name'' KString)
        \<lparr>prequired := True, punique := True, ptrim := True,
         pvalidate := (\<lambda>v. case v of FStr s \<Rightarrow> name_ok s | _ \<Rightarrow> False)\<rparr>,
      (plain_path ''description'' KString)\<lparr>prequired := True, ptrim := True\<rparr>,
      (plain_path ''content'' KString)\<lparr>prequired := True\<rparr>,
      (plain_path ''createdAt'' KDate)\<lparr>pdefault_now := True\<rparr>,
      (plain_path ''updatedAt'' KDate)\<lparr>pdefault_now := True\<rparr>]"

section \<open>proxyService: configuration and traffic\<close>


text \<open>
  \<^verbatim>\<open>ProxyConfig.findOneAndUpdate({}, config, { new: true, upsert: true })\<close>: no
  \<^verbatim>\<open>runValidators\<close> among the options.
\<close>

definition updateProxyConfig :: "int \<Rightarrow> doc \<Rightarrow> world \<Rightarrow> (error + unit) \<times> world" where
  "updateProxyConfig now config w =
     (case findOneAndUpdate proxyConfigSchema False True now (\<lambda>s. True) config
             (proxyConfigs w) of
        Inl e \<Rightarrow> (Inl (ProxyConfigurationError ''Error updating proxy configuration''), w)
      | Inr r \<Rightarrow> (Inr (), w\<lparr>proxyConfigs := snd r\<rparr>))"

record filters =
  startDate :: int
  endDate :: int
  targetUrl :: "string option"
  httpMethod :: "string option"
  page :: int
  limit :: int

text \<open>
  \<^verbatim>\<open>new RegExp(filters.targetUrl, 'i')\<close> is the regular-expression engine's: \<open>regExp\<close>
  gives the matcher of a pattern, or \<open>None\<close> where the constructor throws. An absent
  or empty filter string is falsy and adds no condition.
\<close>

definition getProxyTraffic :: "(string \<Rightarrow> (string \<Rightarrow> bool) option) \<Rightarrow> filters \<Rightarrow> world
    \<Rightarrow> (error + (nat \<times> doc) list) \<times> world" where
  "getProxyTraffic regExp fs w =
     (let failed = (Inl (ProxyTrafficLogError ''Error fetching proxy traffic''), w);
          q0 = [(''createdAt'', Between (startDate fs) (endDate fs))];
          q1 = (case targetUrl fs of
                  None \<Rightarrow> Some []
                | Some u \<Rightarrow>
                    if u = [] then Some []
                    else map_option (\<lambda>m. [(''targetUrl'', Regex m)]) (regExp u));
          q2 = (case httpMethod fs of
                  None \<Rightarrow> []
                | Some m \<Rightarrow> if m = [] then [] else [(''method'', Equals (FStr m))]);
          skip = (page fs - 1) * limit fs
      in case q1 of
           None \<Rightarrow> failed
         | Some q1' \<Rightarrow>
             if skip < 0 then failed
             else (Inr (limit_to (limit fs) (drop (nat skip)
                     (sort_newest
                        (filter (\<lambda>s. matches (q0 @ q1' @ q2) (snd s))
                           (docs (proxyConfigs w)))))), w))"

definition field :: "string \<Rightarrow> fval option \<Rightarrow> doc" where
  "field k v = (case v of None \<Rightarrow> [] | Some x \<Rightarrow> [(k, x)])"

text \<open>
  \<^verbatim>\<open>logProxyTraffic\<close> builds a \<^verbatim>\<open>ProxyConfig\<close> document from seven fields of the
  request and the response and saves it.
\<close>

definition logProxyTraffic :: "int \<Rightarrow> doc \<Rightarrow> doc \<Rightarrow> world \<Rightarrow> (error + unit) \<times> world" where
  "logProxyTraffic now request response w =
     (let proxyTraffic = new_model proxyConfigSchema now
            (field ''method'' (map_of request ''method'')
             @ field ''url'' (map_of request ''url'')
             @ field ''headers'' (map_of request ''headers'')
             @ field ''body'' (map_of request ''body'')
             @ field ''statusCode'' (map_of response ''statusCode'')
             @ field ''responseHeaders'' (map_of response ''headers'')
             @ field ''responseBody'' (map_of response ''body''))
      in case save proxyConfigSchema proxyTraffic (proxyConfigs w) of
           Inl e \<Rightarrow> (Inl (ProxyTrafficLogError ''Error logging proxy traffic''), w)
         | Inr r \<Rightarrow> (Inr (), w\<lparr>proxyConfigs := snd r\<rparr>))"


section \<open>scriptService\<close>


text \<open>
  The not-found error is thrown inside the \<^verbatim>\<open>try\<close> block, so the \<^verbatim>\<open>catch\<close> replaces
  it like any other; the same holds in \<^verbatim>\<open>updateScript\<close> and \<^verbatim>\<open>deleteScript\<close>.
\<close>

definition getScriptById :: "nat \<Rightarrow> world \<Rightarrow> (error + (nat \<times> doc)) \<times> world" where
  "getScriptById sid w =
     (case find (\<lambda>s. fst s = sid) (docs (userscripts w)) of
        None \<Rightarrow>
          (Inl (InvalidScriptError (''Error fetching userscript (ID: '' @ show_nat sid @ '')'')),
           w)
      | Some script \<Rightarrow> (Inr script, w))"

text \<open>
  \<^verbatim>\<open>sanitizeScript\<close> is imported from \<^verbatim>\<open>utils/helpers.js\<close>, which does not define it;
  it is a parameter, \<open>None\<close> where the call throws.
\<close>

definition createScript :: "(doc \<Rightarrow> doc option) \<Rightarrow> int \<Rightarrow> doc \<Rightarrow> world
    \<Rightarrow> (error + (nat \<times> doc)) \<times> world" where
  "createScript sanitizeScript now scriptData w =
     (let failed = (Inl (InvalidScriptError ''Error creating userscript''), w) in
      case sanitizeScript scriptData of
        None \<Rightarrow> failed
      | Some sanitizedScriptData \<Rightarrow>
          (case save userscriptSchema (new_model userscriptSchema now sanitizedScriptData)
                  (userscripts w) of
             Inl e \<Rightarrow> failed
           | Inr r \<Rightarrow> (Inr (fst r), w\<lparr>userscripts := snd r\<rparr>)))"



section \<open>scriptService: running a script\<close>

text \<open>
  The script text is run by Node's \<^verbatim>\<open>vm\<close> module, which is not part of the repository.
  An engine gives what \<^verbatim>\<open>vm.runInContext(code, sandbox, { timeout: 5000 })\<close> followed
  by \<^verbatim>\<open>await\<close> does for a program text, a heap and the address of the sandbox's global
  object: the script completes with a value, it throws (or its promise rejects), the
  run is cut off by the timeout, or the script's result is a promise that never
  settles. Each outcome but the last carries the heap the script left.
\<close>

datatype vm_outcome =
    Completed jsval heap
  | Thrown jsval heap
  | TimedOut heap
  | Pending

type_synonym engine = "string \<Rightarrow> heap \<Rightarrow> addr \<Rightarrow> vm_outcome"

text \<open>
  \<^verbatim>\<open>vm.createContext(context)\<close> contextifies the object it is given and returns that
  same object; without one (\<^verbatim>\<open>undefined\<close>) it makes a new empty object; any other
  value is a \<^verbatim>\<open>TypeError\<close>.
\<close>

fun createContext :: "heap \<Rightarrow> jsval \<Rightarrow> (addr \<times> heap) option" where
  "createContext h (Ref a) = Some (a, h)"
| "createContext h Undefined = Some (length h, h @ [[]])"
| "createContext h v = None"

text \<open>\<open>None\<close>: the call never settles.\<close>

definition executeInSandbox :: "engine \<Rightarrow> string \<Rightarrow> jsval \<Rightarrow> world
    \<Rightarrow> ((error + jsval) \<times> world) option" where
  "executeInSandbox js scriptContent context w =
     (let failed = Inl (ScriptExecutionError ''Error executing script in sandbox'') in
      case createContext (heap w) context of
        None \<Rightarrow> Some (failed, w)
      | Some (sandbox, h1) \<Rightarrow>
          (case js scriptContent h1 sandbox of
             Completed result h2 \<Rightarrow> Some (Inr result, w\<lparr>heap := h2\<rparr>)
           | Thrown err h2 \<Rightarrow> Some (failed, w\<lparr>heap := h2\<rparr>)
           | TimedOut h2 \<Rightarrow> Some (failed, w\<lparr>heap := h2\<rparr>)
           | Pending \<Rightarrow> None))"

text \<open>
  A stored \<^verbatim>\<open>content\<close> that is not a string makes \<^verbatim>\<open>vm.runInContext\<close> throw a
  \<^verbatim>\<open>TypeError\<close>, which ends in the same error.
\<close>

definition executeScript :: "engine \<Rightarrow> nat \<Rightarrow> jsval \<Rightarrow> world
    \<Rightarrow> ((error + jsval) \<times> world) option" where
  "executeScript js sid context w =
     (let failed =
            Inl (ScriptExecutionError
                   (''Error executing userscript (ID: '' @ show_nat sid @ '')'')) in
      case getScriptById sid w of
        (Inl e, w1) \<Rightarrow> Some (failed, w1)
      | (Inr script, w1) \<Rightarrow>
          (case map_of (snd script) ''content'' of
             Some (FStr content) \<Rightarrow>
               (case executeInSandbox js content context w1 of
                  None \<Rightarrow> None
                | Some (Inl e, w2) \<Rightarrow> Some (failed, w2)
                | Some (Inr result, w2) \<Rightarrow> Some (Inr result, w2))
           | _ \<Rightarrow> Some (failed, w1)))"

section \<open>The operations of the two services as steps of the system\<close>




definition empty_collection :: collection where
  "empty_collection = \<lparr>docs = [], next_id = 0\<rparr>"

definition initial :: "heap \<Rightarrow> world" where
  "initial h = \<lparr>heap = h, proxyConfigs = empty_collection,
     userscripts = empty_collection, forwarded = []\<rparr>"


section \<open>The route \<^verbatim>\<open>PUT /config\<close>\<close>

text \<open>
  The validation chain of the route and \<^verbatim>\<open>proxyController.updateProxyConfig\<close>. The
  route's pattern is \<^verbatim>\<open>/^[a-zA-Z0-9-]+(.[a-zA-Z0-9-]+)*$/\<close>: its dot is not escaped and
  stands for any character but a line break.
\<close>

fun route_hostname_from :: "bool \<Rightarrow> string \<Rightarrow> bool" where
  "route_hostname_from need [] = (\<not> need)"
| "route_hostname_from need (c # cs) =
     (if is_label_char c then route_hostname_from False cs
      else if \<not> need \<and> c \<noteq> CHR 0x0A \<and> c \<noteq> CHR 0x0D then route_hostname_from True cs
      else False)"

definition config_route_valid :: "doc \<Rightarrow> bool" where
  "config_route_valid body =
     ((case map_of body ''targetHostname'' of
         Some (FStr s) \<Rightarrow> s \<noteq> [] \<and> route_hostname_from True s
       | _ \<Rightarrow> False)
      \<and> (case map_of body ''targetPort'' of
            Some (FNum n) \<Rightarrow> 1 \<le> n \<and> n \<le> 65535
          | _ \<Rightarrow> False)
      \<and> (case map_of body ''requestModifications'' of
            None \<Rightarrow> True | Some (FObj m) \<Rightarrow> True | _ \<Rightarrow> False)
      \<and> (case map_of body ''responseModifications'' of
            None \<Rightarrow> True | Some (FObj m) \<Rightarrow> True | _ \<Rightarrow> False))"

datatype reply = BadRequest | Ok | Failed error

definition controller_updateProxyConfig :: "int \<Rightarrow> doc \<Rightarrow> world \<Rightarrow> reply \<times> world" where
  "controller_updateProxyConfig now body w =
     (if \<not> config_route_valid body then (BadRequest, w)
      else
        (case updateProxyConfig now body w of
           (Inl e, w') \<Rightarrow> (Failed e, w')
         | (Inr u, w') \<Rightarrow> (Ok, w')))"

section \<open>Concrete engines for concrete runs\<close>

text \<open>
  Four programs with what Node does for each, to run the script service on; any other
  text is taken as a syntax error.
\<close>

definition demo_engine :: engine where
  "demo_engine code h g =
     (if code = ''value = 42''
      then Completed (Num 42) (mutate h (SetProp g ''value'' (Num 42)))
      else if code = ''throw 1'' then Thrown (Num 1) h
      else if code = ''for(;;){}'' then TimedOut h
      else if code = ''new Promise(() => {})'' then Pending
      else Thrown (Str ''SyntaxError'') h)"

text \<open>
  A pattern of letters, digits and slashes only is a literal: with the flag \<^verbatim>\<open>i\<close> it
  matches the strings that contain it, whatever the case. Other patterns are left out
  (as if the constructor threw).
\<close>

definition to_lower :: "char \<Rightarrow> char" where
  "to_lower c =
     (case map_of (zip ''ABCDEFGHIJKLMNOPQRSTUVWXYZ'' ''abcdefghijklmnopqrstuvwxyz'') c of
        None \<Rightarrow> c | Some l \<Rightarrow> l)"

fun contains :: "string \<Rightarrow> string \<Rightarrow> bool" where
  "contains p [] = (p = [])"
| "contains p (c # cs) = (take (length p) (c # cs) = p \<or> contains p cs)"

definition literal_regExp :: "string \<Rightarrow> (string \<Rightarrow> bool) option" where
  "literal_regExp p =
     (if list_all (\<lambda>c. c \<in> set alnum \<or> c = CHR ''/'') p
      then Some (\<lambda>s. contains (map to_lower p) (map to_lower s))
      else None)"


section \<open>Shapes and examples used by the properties\<close>

text \<open>
  The result \<open>r\<close> of copying the object \<open>d\<close> of heap \<open>h\<close>, in the heap \<open>h'\<close> after the
  call: a new object with the fields of \<open>d\<close>, new objects for its headers and its
  truthy body, \<^verbatim>\<open>null\<close> for any other body, and the old heap as it was.
\<close>

definition copied :: "heap \<Rightarrow> jsval \<Rightarrow> heap \<Rightarrow> addr \<Rightarrow> bool" where
  "copied h d h' r =
     (length h \<le> r \<and> length h' = Suc r
      \<and> (\<forall>k. k \<noteq> ''headers'' \<longrightarrow> k \<noteq> ''body'' \<longrightarrow> get_prop h' (Ref r) k = get_prop h d k)
      \<and> (\<exists>c. get_prop h' (Ref r) ''headers'' = Ref c \<and> length h \<le> c \<and> c < r
             \<and> cell h' c = spread h (get_prop h d ''headers''))
      \<and> (if truthy (get_prop h d ''body'')
         then \<exists>c. get_prop h' (Ref r) ''body'' = Ref c \<and> length h \<le> c \<and> c < r
                \<and> cell h' c = spread h (get_prop h d ''body'')
         else get_prop h' (Ref r) ''body'' = Null)
      \<and> take (length h) h' = h)"

text \<open>A heap with a well-formed request (address 3) whose body holds a nested object,
  and a response without a body (address 4).\<close>

definition example_world :: world where
  "example_world = initial
     [[(''b'', Num 1)],
      [(''a'', Ref 0)],
      [],
      [(''method'', Str ''POST''), (''url'', Str ''https://example.com/api''),
       (''headers'', Ref 2), (''body'', Ref 1)],
      [(''statusCode'', Num 204), (''headers'', Ref 2)]]"

text \<open>A caller's context object \<^verbatim>\<open>{value: 41}\<close> at address 0, and the state after
  registering one script with a given text.\<close>

definition context_world :: world where
  "context_world = initial [[(''value'', Num 41)]]"

definition script_world :: "string \<Rightarrow> world" where
  "script_world code =
     snd (createScript Some 1
            [(''name'', FStr ''demo''), (''description'', FStr ''a script''),
             (''content'', FStr code)]
            context_world)"

text \<open>The store after a first, valid configuration; a store holding a record with the
  fields \<^verbatim>\<open>logProxyTraffic\<close> passes; a query for the dates 0 to 10.\<close>

definition configured_world :: world where
  "configured_world =
     snd (updateProxyConfig 1
            [(''targetHostname'', FStr ''example.com''), (''targetPort'', FNum 8080)]
            (initial []))"

definition traffic_world :: world where
  "traffic_world = (initial [])\<lparr>proxyConfigs :=
     \<lparr>docs = [(0, [(''method'', FStr ''GET''), (''url'', FStr ''/api/data''),
                   (''headers'', FObj []), (''statusCode'', FNum 200),
                   (''responseHeaders'', FObj []), (''createdAt'', FDate 5)])],
      next_id = 1\<rparr>\<rparr>"

definition example_filters :: filters where
  "example_filters = \<lparr>startDate = 0, endDate = 10, targetUrl = None, httpMethod = None,
     page = 1, limit = 10\<rparr>"



section \<open>Properties\<close>

subsection \<open>Objects and copies\<close>

lemma map_of_put_same: "map_of (put k v ps) k = Some v"
  by (induction ps) auto

lemma map_of_put_other: "k' \<noteq> k \<Longrightarrow> map_of (put k v ps) k' = map_of ps k'"
  by (induction ps) auto

lemma is_object_cases: "truthy d \<Longrightarrow> typeof d = ''object'' \<Longrightarrow> \<exists>a. d = Ref a"
  by (cases d) auto

lemma cell_new0: "cell (h @ x # xs) (length h) = x"
  by (simp add: cell_def nth_append)

lemma cell_new1: "cell (h @ x # y # xs) (Suc (length h)) = y"
  by (simp add: cell_def nth_append)

lemma cell_new2: "cell (h @ x # y # z # xs) (Suc (Suc (length h))) = z"
  by (simp add: cell_def nth_append)

lemma modifyProxyRequest_truthy:
  assumes "truthy (get_prop (heap w) (Ref a) ''body'')"
  shows "modifyProxyRequest (Ref a) w =
     (Inr (Ref (Suc (Suc (length (heap w))))),
      w\<lparr>heap := heap w @
        [spread (heap w) (get_prop (heap w) (Ref a) ''headers''),
         spread (heap w) (get_prop (heap w) (Ref a) ''body''),
         put ''body'' (Ref (Suc (length (heap w))))
           (put ''headers'' (Ref (length (heap w))) (cell (heap w) a))]\<rparr>)"
  using assms by (simp add: modifyProxyRequest_def alloc_def Let_def)

lemma modifyProxyRequest_falsy:
  assumes "\<not> truthy (get_prop (heap w) (Ref a) ''body'')"
  shows "modifyProxyRequest (Ref a) w =
     (Inr (Ref (Suc (length (heap w)))),
      w\<lparr>heap := heap w @
        [spread (heap w) (get_prop (heap w) (Ref a) ''headers''),
         put ''body'' Null
           (put ''headers'' (Ref (length (heap w))) (cell (heap w) a))]\<rparr>)"
  using assms by (simp add: modifyProxyRequest_def alloc_def Let_def)

lemma modifyProxyResponse_as_request:
  "modifyProxyResponse (Ref a) w = modifyProxyRequest (Ref a) w"
  by (simp add: modifyProxyResponse_def modifyProxyRequest_def)

lemma injectCustomResponse_as_request:
  "injectCustomResponse (Ref a) w = modifyProxyRequest (Ref a) w"
  by (simp add: injectCustomResponse_def modifyProxyRequest_def)

lemma modifyProxyRequest_copied:
  "\<exists>r h'. modifyProxyRequest (Ref a) w = (Inr (Ref r), w\<lparr>heap := h'\<rparr>)
      \<and> copied (heap w) (Ref a) h' r"
proof (cases "truthy (get_prop (heap w) (Ref a) ''body'')")
  case True
  show ?thesis
    unfolding modifyProxyRequest_truthy[OF True] copied_def
    apply (intro exI conjI, rule refl)
    using True
    by (auto simp: map_of_put_same map_of_put_other cell_new2 cell_new1 cell_new0
        intro: exI[of _ "Suc (length (heap w))"] exI[of _ "length (heap w)"])
next
  case False
  show ?thesis
    unfolding modifyProxyRequest_falsy[OF False] copied_def
    apply (intro exI conjI, rule refl)
    using False
    by (auto simp: map_of_put_same map_of_put_other cell_new1 cell_new0
        intro: exI[of _ "length (heap w)"])
qed

lemma length_mutate: "length (mutate h m) = length h"
  by (cases m) auto

lemma cell_mutate_other: "target m \<noteq> a \<Longrightarrow> cell (mutate h m) a = cell h a"
  by (cases m) (auto simp: cell_def)

lemma cell_mutate_all_other:
  "\<forall>m\<in>set ms. target m \<noteq> a \<Longrightarrow> cell (mutate_all h ms) a = cell h a"
  unfolding mutate_all_def
  by (induction ms arbitrary: h) (auto simp: cell_mutate_other)

lemma length_mutate_all: "length (mutate_all h ms) = length h"
  unfolding mutate_all_def
  by (induction ms arbitrary: h) (simp_all add: length_mutate)

lemma mutate_append: "target m < length h \<Longrightarrow> mutate (h @ xs) m = mutate h m @ xs"
  by (cases m) (simp_all add: list_update_append1 nth_append)

lemma mutate_all_append:
  "\<forall>m\<in>set ms. target m < length h \<Longrightarrow> mutate_all (h @ xs) ms = mutate_all h ms @ xs"
  unfolding mutate_all_def
  by (induction ms arbitrary: h) (simp_all add: mutate_append length_mutate)

lemma cell_old_after:
  assumes "n < length h" and "\<forall>m\<in>set ms. target m < length h" and "take (length h) h' = h"
  shows "cell (mutate_all h' ms) n = cell (mutate_all h ms) n"
proof -
  have "h' = h @ drop (length h) h'"
    using assms(3) append_take_drop_id[of "length h" h'] by simp
  then have "mutate_all h' ms = mutate_all h ms @ drop (length h) h'"
    using mutate_all_append[OF assms(2)] by metis
  then show ?thesis
    using assms(1) by (simp add: cell_def nth_append length_mutate_all)
qed

lemma copied_body_falsy:
  "copied h d h' r \<Longrightarrow> \<not> truthy (get_prop h d ''body'') \<Longrightarrow> get_prop h' (Ref r) ''body'' = Null"
  by (simp add: copied_def)

lemma copied_body_truthy:
  assumes "copied h d h' r" and "truthy (get_prop h d ''body'')"
  shows "\<exists>c. get_prop h' (Ref r) ''body'' = Ref c \<and> length h \<le> c \<and> c < r
           \<and> cell h' c = spread h (get_prop h d ''body'')"
proof -
  from assms have "if truthy (get_prop h d ''body'')
         then \<exists>c. get_prop h' (Ref r) ''body'' = Ref c \<and> length h \<le> c \<and> c < r
                \<and> cell h' c = spread h (get_prop h d ''body'')
         else get_prop h' (Ref r) ''body'' = Null"
    unfolding copied_def by (elim conjE)
  with assms(2) show ?thesis by (simp only: if_True)
qed

lemma example_heap:
  "heap example_world =
     [[(''b'', Num 1)],
      [(''a'', Ref 0)],
      [],
      [(''method'', Str ''POST''), (''url'', Str ''https://example.com/api''),
       (''headers'', Ref 2), (''body'', Ref 1)],
      [(''statusCode'', Num 204), (''headers'', Ref 2)]]"
  by (simp add: example_world_def initial_def)

lemma example_reads:
  "get_prop (heap example_world) (Ref 4) ''body'' = Undefined"
  "get_prop (heap example_world) (Ref 3) ''body'' = Ref 1"
  "spread (heap example_world) (Ref 1) = [(''a'', Ref 0)]"
  by (simp_all add: example_heap cell_def)

lemma copied_fresh: "copied h d h' r \<Longrightarrow> length h \<le> r"
  by (simp add: copied_def)

lemma copied_fields:
  "copied h d h' r \<Longrightarrow> k \<noteq> ''headers'' \<Longrightarrow> k \<noteq> ''body''
    \<Longrightarrow> get_prop h' (Ref r) k = get_prop h d k"
  unfolding copied_def by (elim conjE allE[of _ k]) (simp only: simp_thms)

lemma copied_headers:
  assumes "copied h d h' r"
  shows "\<exists>c. get_prop h' (Ref r) ''headers'' = Ref c \<and> length h \<le> c \<and> c < r
           \<and> cell h' c = spread h (get_prop h d ''headers'')"
  using assms unfolding copied_def by (elim conjE)

lemma copied_old_heap: "copied h d h' r \<Longrightarrow> take (length h) h' = h"
  unfolding copied_def by (elim conjE)

lemma nested_in_body_shared:
  assumes "copied h d h' r" and "get_prop h (get_prop h d ''body'') k = Ref n"
  shows "get_prop h' (get_prop h' (Ref r) ''body'') k = Ref n"
proof -
  from assms(2) obtain b where b: "get_prop h d ''body'' = Ref b"
    by (cases "get_prop h d ''body''") simp_all
  then have "truthy (get_prop h d ''body'')" by simp
  from copied_body_truthy[OF assms(1) this] obtain c where
    c: "get_prop h' (Ref r) ''body'' = Ref c" "cell h' c = spread h (get_prop h d ''body'')"
    by (elim exE conjE)
  from c(2) have "cell h' c = cell h b" unfolding b by simp
  with assms(2) show ?thesis unfolding c(1) b by simp
qed

lemma nested_in_headers_shared:
  assumes "copied h d h' r" and "get_prop h (get_prop h d ''headers'') k = Ref n"
  shows "get_prop h' (get_prop h' (Ref r) ''headers'') k = Ref n"
proof -
  from assms(2) obtain b where b: "get_prop h d ''headers'' = Ref b"
    by (cases "get_prop h d ''headers''") simp_all
  from copied_headers[OF assms(1)] obtain c where
    c: "get_prop h' (Ref r) ''headers'' = Ref c" "cell h' c = spread h (get_prop h d ''headers'')"
    by (elim exE conjE)
  from c(2) have "cell h' c = cell h b" unfolding b by simp
  with assms(2) show ?thesis unfolding c(1) b by simp
qed

lemma example_modify:
  "modifyProxyRequest (Ref 3) example_world =
     (Inr (Ref 7), example_world\<lparr>heap :=
        [[(''b'', Num 1)],
         [(''a'', Ref 0)],
         [],
         [(''method'', Str ''POST''), (''url'', Str ''https://example.com/api''),
       (''headers'', Ref 2), (''body'', Ref 1)],
         [(''statusCode'', Num 204), (''headers'', Ref 2)],
         [],
         [(''a'', Ref 0)],
         [(''method'', Str ''POST''), (''url'', Str ''https://example.com/api''),
          (''headers'', Ref 5), (''body'', Ref 6)]]\<rparr>)"
  by (simp add: modifyProxyRequest_def example_heap alloc_def cell_def Let_def)

lemma example_inject:
  "injectCustomResponse (Ref 4) example_world =
     (Inr (Ref 6), example_world\<lparr>heap :=
        [[(''b'', Num 1)],
         [(''a'', Ref 0)],
         [],
         [(''method'', Str ''POST''), (''url'', Str ''https://example.com/api''),
       (''headers'', Ref 2), (''body'', Ref 1)],
         [(''statusCode'', Num 204), (''headers'', Ref 2)],
         [],
         [(''statusCode'', Num 204), (''headers'', Ref 5), (''body'', Null)]]\<rparr>)"
  by (simp add: injectCustomResponse_def example_heap alloc_def cell_def Let_def)

subsection \<open>The body of a modified request or response\<close>

text \<open>
  C10. For every object accepted by \<^verbatim>\<open>modifyProxyRequest\<close> or \<^verbatim>\<open>modifyProxyResponse\<close>
  (a truthy value whose \<^verbatim>\<open>typeof\<close> is \<^verbatim>\<open>'object'\<close>): when its \<^verbatim>\<open>body\<close> is absent
  (it reads as \<^verbatim>\<open>undefined\<close>) or falsy, the \<^verbatim>\<open>body\<close> of the returned object is
  \<^verbatim>\<open>null\<close> itself (an absent field would read as \<^verbatim>\<open>undefined\<close>); when it is truthy,
  the \<^verbatim>\<open>body\<close> of the returned object is a new object, allocated by the call, that
  holds the own properties of the original body.
\<close>

theorem modify_body_null_or_copied:
  assumes "truthy d" and "typeof d = ''object''"
    and "f = modifyProxyRequest \<or> f = modifyProxyResponse"
  shows "\<exists>r h'. f d w = (Inr (Ref r), w\<lparr>heap := h'\<rparr>) \<and>
     (\<not> truthy (get_prop (heap w) d ''body'') \<longrightarrow> get_prop h' (Ref r) ''body'' = Null) \<and>
     (truthy (get_prop (heap w) d ''body'') \<longrightarrow>
        (\<exists>c. get_prop h' (Ref r) ''body'' = Ref c \<and> length (heap w) \<le> c \<and>
             cell h' c = spread (heap w) (get_prop (heap w) d ''body'')))"
proof -
  from assms obtain a where d: "d = Ref a" using is_object_cases by blast
  obtain r h' where r: "modifyProxyRequest (Ref a) w = (Inr (Ref r), w\<lparr>heap := h'\<rparr>)"
    and c: "copied (heap w) d h' r"
    unfolding d using modifyProxyRequest_copied by blast
  have 1: "f d w = (Inr (Ref r), w\<lparr>heap := h'\<rparr>)"
  proof -
    from assms(3) have "f d w = modifyProxyRequest d w"
      unfolding d using modifyProxyResponse_as_request by fastforce
    then show ?thesis unfolding d using r by (simp only:)
  qed
  have 2: "\<not> truthy (get_prop (heap w) d ''body'') \<longrightarrow> get_prop h' (Ref r) ''body'' = Null"
    using copied_body_falsy[OF c] by (rule impI)
  have 3: "truthy (get_prop (heap w) d ''body'') \<longrightarrow>
        (\<exists>c. get_prop h' (Ref r) ''body'' = Ref c \<and> length (heap w) \<le> c \<and>
             cell h' c = spread (heap w) (get_prop (heap w) d ''body''))"
  proof
    assume "truthy (get_prop (heap w) d ''body'')"
    from copied_body_truthy[OF c this] obtain c' where
      "get_prop h' (Ref r) ''body'' = Ref c'" "length (heap w) \<le> c'"
      "cell h' c' = spread (heap w) (get_prop (heap w) d ''body'')" by (elim exE conjE)
    then show "\<exists>c. get_prop h' (Ref r) ''body'' = Ref c \<and> length (heap w) \<le> c \<and>
             cell h' c = spread (heap w) (get_prop (heap w) d ''body'')"
      by (intro exI[of _ c'] conjI)
  qed
  from 1 2 3 show ?thesis by (intro exI[of _ r] exI[of _ h'] conjI)
qed

theorem modify_body_null_or_copied_witness:
  "truthy (Ref 4) \<and> typeof (Ref 4) = ''object''
   \<and> \<not> truthy (get_prop (heap example_world) (Ref 4) ''body'')
   \<and> (\<exists>r h'. modifyProxyResponse (Ref 4) example_world = (Inr (Ref r), example_world\<lparr>heap := h'\<rparr>)
        \<and> get_prop h' (Ref r) ''body'' = Null)
   \<and> truthy (get_prop (heap example_world) (Ref 3) ''body'')
   \<and> (\<exists>r h' c. modifyProxyRequest (Ref 3) example_world = (Inr (Ref r), example_world\<lparr>heap := h'\<rparr>)
        \<and> get_prop h' (Ref r) ''body'' = Ref c \<and> cell h' c = [(''a'', Ref 0)])"
proof -
  have a: "truthy (Ref 4)" "typeof (Ref 4) = ''object''" "truthy (Ref 3)" "typeof (Ref 3) = ''object''"
    by simp_all
  have f: "\<not> truthy (get_prop (heap example_world) (Ref 4) ''body'')"
    and t: "truthy (get_prop (heap example_world) (Ref 3) ''body'')"
    by (simp_all only: example_reads truthy.simps simp_thms)
  from modify_body_null_or_copied[OF a(1,2), of modifyProxyResponse example_world] f
  have 1: "\<exists>r h'. modifyProxyResponse (Ref 4) example_world = (Inr (Ref r), example_world\<lparr>heap := h'\<rparr>)
        \<and> get_prop h' (Ref r) ''body'' = Null"
    by blast
  from modify_body_null_or_copied[OF a(3,4), of modifyProxyRequest example_world] t
  have 2: "\<exists>r h' c. modifyProxyRequest (Ref 3) example_world = (Inr (Ref r), example_world\<lparr>heap := h'\<rparr>)
        \<and> get_prop h' (Ref r) ''body'' = Ref c \<and> cell h' c = [(''a'', Ref 0)]"
    unfolding example_reads by blast
  from a f t 1 2 show ?thesis by (intro conjI)
qed

subsection \<open>How deep the copy of a request goes\<close>

text \<open>
  C5, as the specification states it, asks for a deep copy. The object literal copies
  the request, its headers and its body one level each; an object nested in the body
  is the same object in the request and in the result. Here the request at address 3
  (method \<^verbatim>\<open>POST\<close>, a URL, empty headers) has the body \<^verbatim>\<open>{a: {b: 1}}\<close>; after the
  call, writing \<^verbatim>\<open>b = 2\<close> to the nested object of the caller's request changes what
  \<^verbatim>\<open>result.body.a.b\<close> reads.
\<close>

theorem modifyProxyRequest_shares_nested_objects:
  "fst (modifyProxyRequest (Ref 3) example_world) = Inr (Ref 7)
   \<and> read_path (heap example_world) (Ref 3) [''body'', ''a''] = Ref 0
   \<and> read_path (heap (snd (modifyProxyRequest (Ref 3) example_world))) (Ref 7)
        [''body'', ''a'', ''b''] = Num 1
   \<and> read_path (mutate (heap (snd (modifyProxyRequest (Ref 3) example_world)))
          (SetProp 0 ''b'' (Num 2))) (Ref 7) [''body'', ''a'', ''b''] = Num 2"
  unfolding example_modify
  by (simp add: read_path_def example_heap cell_def)

text \<open>
  C5, amended. For every request object accepted by \<^verbatim>\<open>modifyProxyRequest\<close> the result
  is an object allocated by the call whose fields other than \<^verbatim>\<open>headers\<close> and \<^verbatim>\<open>body\<close>
  are those of the request; its \<^verbatim>\<open>headers\<close> is a new object with the own properties of
  the request's headers, its \<^verbatim>\<open>body\<close> a new object with the own properties of a truthy
  body and \<^verbatim>\<open>null\<close> otherwise. No sequence of property writes and deletions on objects
  that existed before the call changes the own properties of these three objects. The
  copy goes one level: an object held in a property of the request's body or headers
  is the same object in the result's body or headers, and every object that existed
  before the call is, after any such writes, what it would be without the call.
\<close>

theorem modifyProxyRequest_copies_one_level:
  assumes "truthy raw" and "typeof raw = ''object''"
    and "\<forall>m\<in>set ms. target m < length (heap w)"
  shows "\<exists>r h'. modifyProxyRequest raw w = (Inr (Ref r), w\<lparr>heap := h'\<rparr>)
     \<and> length (heap w) \<le> r
     \<and> (\<forall>k. k \<noteq> ''headers'' \<longrightarrow> k \<noteq> ''body''
            \<longrightarrow> get_prop h' (Ref r) k = get_prop (heap w) raw k)
     \<and> cell (mutate_all h' ms) r = cell h' r
     \<and> (\<exists>c. get_prop h' (Ref r) ''headers'' = Ref c \<and> length (heap w) \<le> c
            \<and> cell h' c = spread (heap w) (get_prop (heap w) raw ''headers'')
            \<and> cell (mutate_all h' ms) c = cell h' c)
     \<and> (if truthy (get_prop (heap w) raw ''body'')
         then \<exists>c. get_prop h' (Ref r) ''body'' = Ref c \<and> length (heap w) \<le> c
                \<and> cell h' c = spread (heap w) (get_prop (heap w) raw ''body'')
                \<and> cell (mutate_all h' ms) c = cell h' c
         else get_prop h' (Ref r) ''body'' = Null)
     \<and> (\<forall>k n. get_prop (heap w) (get_prop (heap w) raw ''body'') k = Ref n
            \<longrightarrow> get_prop h' (get_prop h' (Ref r) ''body'') k = Ref n)
     \<and> (\<forall>k n. get_prop (heap w) (get_prop (heap w) raw ''headers'') k = Ref n
            \<longrightarrow> get_prop h' (get_prop h' (Ref r) ''headers'') k = Ref n)
     \<and> (\<forall>n<length (heap w). cell (mutate_all h' ms) n = cell (mutate_all (heap w) ms) n)"
proof -
  from assms obtain a where d: "raw = Ref a" using is_object_cases by blast
  obtain r h' where r: "modifyProxyRequest raw w = (Inr (Ref r), w\<lparr>heap := h'\<rparr>)"
    and c: "copied (heap w) raw h' r"
    unfolding d using modifyProxyRequest_copied by blast
  have keep: "cell (mutate_all h' ms) x = cell h' x" if "length (heap w) \<le> x" for x
  proof (rule cell_mutate_all_other)
    show "\<forall>m\<in>set ms. target m \<noteq> x" using assms(3) that by fastforce
  qed
  have 1: "length (heap w) \<le> r" using c by (rule copied_fresh)
  have 2: "\<forall>k. k \<noteq> ''headers'' \<longrightarrow> k \<noteq> ''body''
            \<longrightarrow> get_prop h' (Ref r) k = get_prop (heap w) raw k"
    using copied_fields[OF c] by blast
  have 3: "cell (mutate_all h' ms) r = cell h' r" using 1 by (rule keep)
  from copied_headers[OF c] obtain ch where
    ch: "get_prop h' (Ref r) ''headers'' = Ref ch" "length (heap w) \<le> ch"
      "cell h' ch = spread (heap w) (get_prop (heap w) raw ''headers'')"
    by (elim exE conjE)
  have 4: "\<exists>c. get_prop h' (Ref r) ''headers'' = Ref c \<and> length (heap w) \<le> c
            \<and> cell h' c = spread (heap w) (get_prop (heap w) raw ''headers'')
            \<and> cell (mutate_all h' ms) c = cell h' c"
    using ch keep[OF ch(2)] by (intro exI[of _ ch] conjI)
  have 5: "if truthy (get_prop (heap w) raw ''body'')
         then \<exists>c. get_prop h' (Ref r) ''body'' = Ref c \<and> length (heap w) \<le> c
                \<and> cell h' c = spread (heap w) (get_prop (heap w) raw ''body'')
                \<and> cell (mutate_all h' ms) c = cell h' c
         else get_prop h' (Ref r) ''body'' = Null"
  proof (cases "truthy (get_prop (heap w) raw ''body'')")
    case True
    from copied_body_truthy[OF c True] obtain cb where
      cb: "get_prop h' (Ref r) ''body'' = Ref cb" "length (heap w) \<le> cb"
        "cell h' cb = spread (heap w) (get_prop (heap w) raw ''body'')"
      by (elim exE conjE)
    have "\<exists>c. get_prop h' (Ref r) ''body'' = Ref c \<and> length (heap w) \<le> c
                \<and> cell h' c = spread (heap w) (get_prop (heap w) raw ''body'')
                \<and> cell (mutate_all h' ms) c = cell h' c"
      using cb keep[OF cb(2)] by (intro exI[of _ cb] conjI)
    with True show ?thesis by (simp only: if_True)
  next
    case False
    with copied_body_falsy[OF c False] show ?thesis by (simp only: if_False)
  qed
  have 6: "\<forall>k n. get_prop (heap w) (get_prop (heap w) raw ''body'') k = Ref n
            \<longrightarrow> get_prop h' (get_prop h' (Ref r) ''body'') k = Ref n"
    using nested_in_body_shared[OF c] by blast
  have 7: "\<forall>k n. get_prop (heap w) (get_prop (heap w) raw ''headers'') k = Ref n
            \<longrightarrow> get_prop h' (get_prop h' (Ref r) ''headers'') k = Ref n"
    using nested_in_headers_shared[OF c] by blast
  have 8: "\<forall>n<length (heap w). cell (mutate_all h' ms) n = cell (mutate_all (heap w) ms) n"
    using cell_old_after[OF _ assms(3) copied_old_heap[OF c]] by blast
  show ?thesis
    apply (rule exI[of _ r], rule exI[of _ h'])
    using r 1 2 3 4 5 6 7 8 by (intro conjI)
qed

theorem modifyProxyRequest_copies_one_level_witness:
  "\<exists>r h'. modifyProxyRequest (Ref 3) example_world = (Inr (Ref r), example_world\<lparr>heap := h'\<rparr>)
     \<and> length (heap example_world) \<le> r
     \<and> get_prop h' (Ref r) ''url'' = Str ''https://example.com/api''
     \<and> cell (mutate_all h'
          [SetProp 3 ''url'' (Str ''/changed''), SetProp 1 ''a'' Null, DeleteProp 2 ''host'']) r
        = cell h' r
     \<and> get_prop h' (get_prop h' (Ref r) ''body'') ''a'' = Ref 0"
proof -
  let ?ms = "[SetProp 3 ''url'' (Str ''/changed''), SetProp 1 ''a'' Null,
              DeleteProp 2 ''host'']"
  have a: "truthy (Ref 3)" "typeof (Ref 3) = ''object''" by simp_all
  have b: "\<forall>m\<in>set ?ms. target m < length (heap example_world)"
    by (simp add: example_heap)
  have u: "get_prop (heap example_world) (Ref 3) ''url'' = Str ''https://example.com/api''"
    by (simp add: example_heap cell_def)
  have n: "get_prop (heap example_world) (get_prop (heap example_world) (Ref 3) ''body'') ''a''
      = Ref 0"
    by (simp add: example_heap cell_def)
  have k: "''url'' \<noteq> ''headers''" "''url'' \<noteq> ''body''" by simp_all
  from modifyProxyRequest_copies_one_level[OF a b] obtain r h' where
    1: "modifyProxyRequest (Ref 3) example_world = (Inr (Ref r), example_world\<lparr>heap := h'\<rparr>)"
    and 2: "length (heap example_world) \<le> r"
    and 3: "\<forall>k. k \<noteq> ''headers'' \<longrightarrow> k \<noteq> ''body''
            \<longrightarrow> get_prop h' (Ref r) k = get_prop (heap example_world) (Ref 3) k"
    and 4: "cell (mutate_all h' ?ms) r = cell h' r"
    and 5: "\<forall>k n. get_prop (heap example_world)
                (get_prop (heap example_world) (Ref 3) ''body'') k = Ref n
            \<longrightarrow> get_prop h' (get_prop h' (Ref r) ''body'') k = Ref n"
    by (elim exE conjE)
  from 3 k u have 6: "get_prop h' (Ref r) ''url'' = Str ''https://example.com/api''"
    by metis
  from 5 n have 7: "get_prop h' (get_prop h' (Ref r) ''body'') ''a'' = Ref 0" by blast
  show ?thesis
    apply (rule exI[of _ r], rule exI[of _ h'])
    using 1 2 6 4 7 by (intro conjI)
qed

subsection \<open>Injecting a response\<close>

text \<open>
  C4, as the specification states it, has the specification object returned verbatim and
  a traffic record tagged \<^verbatim>\<open>injected\<close>. For the response \<^verbatim>\<open>{statusCode: 204, headers: {}}\<close>
  at address 4 the call returns another object (address 6) with a \<^verbatim>\<open>body\<close> field,
  \<^verbatim>\<open>null\<close>, that the given object does not have, and the store holds no record
  afterwards.
\<close>

theorem injectCustomResponse_not_verbatim_no_record:
  "fst (injectCustomResponse (Ref 4) example_world) = Inr (Ref 6)
   \<and> map_of (cell (heap example_world) 4) ''body'' = None
   \<and> map_of (cell (heap (snd (injectCustomResponse (Ref 4) example_world))) 6) ''body''
        = Some Null
   \<and> docs (proxyConfigs (snd (injectCustomResponse (Ref 4) example_world))) = []"
  unfolding example_inject
  by (simp add: example_heap cell_def) (simp add: example_world_def initial_def empty_collection_def)

text \<open>
  C4, amended. For every response object, \<^verbatim>\<open>injectCustomResponse\<close> returns a new
  object with the top-level fields of the given one, except that \<^verbatim>\<open>headers\<close> is a new
  object with the own properties of the given headers and \<^verbatim>\<open>body\<close> is a new object
  with the own properties of a truthy body and \<^verbatim>\<open>null\<close> otherwise; the call hands no
  request to the forwarder and leaves the store as it was (it writes no traffic
  record).
\<close>

theorem injectCustomResponse_copies_without_forward_or_record:
  assumes "truthy d" and "typeof d = ''object''"
  shows "\<exists>r h'. injectCustomResponse d w = (Inr (Ref r), w\<lparr>heap := h'\<rparr>)
     \<and> length (heap w) \<le> r
     \<and> (\<forall>k. k \<noteq> ''headers'' \<longrightarrow> k \<noteq> ''body'' \<longrightarrow> get_prop h' (Ref r) k = get_prop (heap w) d k)
     \<and> (\<exists>c. get_prop h' (Ref r) ''headers'' = Ref c \<and> length (heap w) \<le> c
            \<and> cell h' c = spread (heap w) (get_prop (heap w) d ''headers''))
     \<and> (if truthy (get_prop (heap w) d ''body'')
         then \<exists>c. get_prop h' (Ref r) ''body'' = Ref c \<and> length (heap w) \<le> c
                \<and> cell h' c = spread (heap w) (get_prop (heap w) d ''body'')
         else get_prop h' (Ref r) ''body'' = Null)
     \<and> forwarded (snd (injectCustomResponse d w)) = forwarded w
     \<and> proxyConfigs (snd (injectCustomResponse d w)) = proxyConfigs w"
proof -
  from assms obtain a where d: "d = Ref a" using is_object_cases by blast
  obtain r h' where r: "injectCustomResponse d w = (Inr (Ref r), w\<lparr>heap := h'\<rparr>)"
    and c: "copied (heap w) d h' r"
    unfolding d injectCustomResponse_as_request using modifyProxyRequest_copied by blast
  have 1: "length (heap w) \<le> r" using c by (rule copied_fresh)
  have 2: "\<forall>k. k \<noteq> ''headers'' \<longrightarrow> k \<noteq> ''body'' \<longrightarrow> get_prop h' (Ref r) k = get_prop (heap w) d k"
    using copied_fields[OF c] by blast
  from copied_headers[OF c] obtain ch where
    ch: "get_prop h' (Ref r) ''headers'' = Ref ch" "length (heap w) \<le> ch"
      "cell h' ch = spread (heap w) (get_prop (heap w) d ''headers'')" by (elim exE conjE)
  then have 3: "\<exists>c. get_prop h' (Ref r) ''headers'' = Ref c \<and> length (heap w) \<le> c
            \<and> cell h' c = spread (heap w) (get_prop (heap w) d ''headers'')"
    by (intro exI[of _ ch] conjI)
  have 4: "if truthy (get_prop (heap w) d ''body'')
         then \<exists>c. get_prop h' (Ref r) ''body'' = Ref c \<and> length (heap w) \<le> c
                \<and> cell h' c = spread (heap w) (get_prop (heap w) d ''body'')
         else get_prop h' (Ref r) ''body'' = Null"
  proof (cases "truthy (get_prop (heap w) d ''body'')")
    case True
    from copied_body_truthy[OF c True] obtain cb where
      "get_prop h' (Ref r) ''body'' = Ref cb" "length (heap w) \<le> cb"
      "cell h' cb = spread (heap w) (get_prop (heap w) d ''body'')" by (elim exE conjE)
    then have "\<exists>c. get_prop h' (Ref r) ''body'' = Ref c \<and> length (heap w) \<le> c
                \<and> cell h' c = spread (heap w) (get_prop (heap w) d ''body'')"
      by (intro exI[of _ cb] conjI)
    with True show ?thesis by (simp only: if_True)
  next
    case False
    with copied_body_falsy[OF c False] show ?thesis by (simp only: if_False)
  qed
  have 5: "forwarded (snd (injectCustomResponse d w)) = forwarded w"
    "proxyConfigs (snd (injectCustomResponse d w)) = proxyConfigs w"
    unfolding r by simp_all
  show ?thesis
    apply (rule exI[of _ r], rule exI[of _ h'])
    using r 1 2 3 4 5 by (intro conjI)
qed

theorem injectCustomResponse_copies_without_forward_or_record_witness:
  "\<exists>r h'. injectCustomResponse (Ref 4) example_world = (Inr (Ref r), example_world\<lparr>heap := h'\<rparr>)
     \<and> length (heap example_world) \<le> r
     \<and> get_prop h' (Ref r) ''statusCode'' = Num 204
     \<and> get_prop h' (Ref r) ''body'' = Null
     \<and> forwarded (snd (injectCustomResponse (Ref 4) example_world)) = []
     \<and> proxyConfigs (snd (injectCustomResponse (Ref 4) example_world)) = empty_collection"
proof -
  have a: "truthy (Ref 4)" "typeof (Ref 4) = ''object''" by simp_all
  have b: "get_prop (heap example_world) (Ref 4) ''statusCode'' = Num 204"
    by (simp add: example_heap cell_def)
  have c: "forwarded example_world = []" "proxyConfigs example_world = empty_collection"
    by (simp_all add: example_world_def initial_def)
  have k: "''statusCode'' \<noteq> ''headers''" "''statusCode'' \<noteq> ''body''" by simp_all
  from injectCustomResponse_copies_without_forward_or_record[OF a, of example_world]
  obtain r h' where
    "injectCustomResponse (Ref 4) example_world = (Inr (Ref r), example_world\<lparr>heap := h'\<rparr>)"
    "length (heap example_world) \<le> r"
    "\<forall>k. k \<noteq> ''headers'' \<longrightarrow> k \<noteq> ''body'' \<longrightarrow> get_prop h' (Ref r) k = get_prop (heap example_world) (Ref 4) k"
    "if truthy (get_prop (heap example_world) (Ref 4) ''body'')
         then \<exists>c. get_prop h' (Ref r) ''body'' = Ref c \<and> length (heap example_world) \<le> c
                \<and> cell h' c = spread (heap example_world) (get_prop (heap example_world) (Ref 4) ''body'')
         else get_prop h' (Ref r) ''body'' = Null"
    "forwarded (snd (injectCustomResponse (Ref 4) example_world)) = forwarded example_world"
    "proxyConfigs (snd (injectCustomResponse (Ref 4) example_world)) = proxyConfigs example_world"
    by (elim exE conjE)
  then show ?thesis
    unfolding c example_reads using k b
    by (intro exI[of _ r] exI[of _ h'] conjI) (simp_all only: truthy.simps if_False simp_thms)
qed

subsection \<open>Evaluating the schemas and the example states\<close>

lemmas schema_eval = userscriptSchema_def proxyConfigSchema_def plain_path_def new_model_def
  validate_def path_ok_def required_ok_def value_ok_def name_ok_def alnum_def key_taken_def
  with_defaults_def set_value_def trim_def is_space_def index_key_def save_def
  hostname_ok_def is_label_char_def update_valid_def

lemma show_nat_digits: "show_nat 0 = ''0''" "show_nat 1 = ''1''" "show_nat (Suc 0) = ''1''"
  by (simp_all add: show_nat.simps)

lemma script_world_eq:
  "code \<noteq> [] \<Longrightarrow> script_world code =
     context_world\<lparr>userscripts :=
       \<lparr>docs = [(0, [(''name'', FStr ''demo''), (''description'', FStr ''a script''),
                     (''content'', FStr code), (''createdAt'', FDate 1),
                     (''updatedAt'', FDate 1)])],
        next_id = 1\<rparr>\<rparr>"
  by (simp add: script_world_def createScript_def context_world_def initial_def
      empty_collection_def schema_eval Let_def)

lemma executeInSandbox_object:
  "executeInSandbox js code (Ref a) w =
     (case js code (heap w) a of
        Completed v h' \<Rightarrow> Some (Inr v, w\<lparr>heap := h'\<rparr>)
      | Thrown e h' \<Rightarrow>
          Some (Inl (ScriptExecutionError ''Error executing script in sandbox''), w\<lparr>heap := h'\<rparr>)
      | TimedOut h' \<Rightarrow>
          Some (Inl (ScriptExecutionError ''Error executing script in sandbox''), w\<lparr>heap := h'\<rparr>)
      | Pending \<Rightarrow> None)"
  by (simp add: executeInSandbox_def Let_def)

subsection \<open>What a script can reach\<close>

text \<open>
  C1, as the specification states it, has the script run on a shallow copy of the
  context, so that its writes never show in the caller's object. The script
  \<^verbatim>\<open>value = 42\<close>, run with the caller's context \<^verbatim>\<open>{value: 41}\<close>, leaves 42 in the
  caller's own object: \<^verbatim>\<open>vm.createContext(context)\<close> returns the object it is given.
\<close>

theorem executeInSandbox_writes_callers_context:
  "get_prop (heap context_world) (Ref 0) ''value'' = Num 41
   \<and> executeInSandbox demo_engine ''value = 42'' (Ref 0) context_world
       = Some (Inr (Num 42), context_world\<lparr>heap := [[(''value'', Num 42)]]\<rparr>)
   \<and> get_prop (heap (snd (the (executeInSandbox demo_engine ''value = 42'' (Ref 0)
         context_world)))) (Ref 0) ''value'' = Num 42"
  by (simp add: executeInSandbox_object demo_engine_def context_world_def initial_def cell_def)

text \<open>
  C1, amended. \<^verbatim>\<open>executeInSandbox\<close> runs the script with the caller's context object
  itself as the global object of the sandbox, on the caller's heap, and takes no
  snapshot: when the script completes, its value is the result and the state it left,
  its writes to the context object included, is the caller's state after the call.
\<close>

theorem executeInSandbox_runs_on_callers_context:
  assumes "js code (heap w) a = Completed v h'"
  shows "executeInSandbox js code (Ref a) w = Some (Inr v, w\<lparr>heap := h'\<rparr>)
     \<and> get_prop (heap (snd (the (executeInSandbox js code (Ref a) w)))) (Ref a) k
         = get_prop h' (Ref a) k"
  using assms by (simp add: executeInSandbox_object)

theorem executeInSandbox_runs_on_callers_context_witness:
  "executeInSandbox demo_engine ''value = 42'' (Ref 0) context_world
     = Some (Inr (Num 42), context_world\<lparr>heap := [[(''value'', Num 42)]]\<rparr>)"
proof -
  have "demo_engine ''value = 42'' (heap context_world) 0
      = Completed (Num 42) [[(''value'', Num 42)]]"
    by (simp add: demo_engine_def context_world_def initial_def)
  from executeInSandbox_runs_on_callers_context[of demo_engine "''value = 42''" context_world 0
      "Num 42" "[[(''value'', Num 42)]]", OF this]
  show ?thesis by blast
qed

subsection \<open>The outcomes of running a script\<close>

text \<open>
  C3, as the specification states it, has two failure kinds that the caller can tell
  apart. A script cut off by the timeout, a script that throws, and a script that does
  not exist all end in the same error value for the same id.
\<close>

theorem executeScript_timeout_and_fault_indistinguishable:
  "map_option fst (executeScript demo_engine 0 (Ref 0) (script_world ''for(;;){}''))
     = Some (Inl (ScriptExecutionError ''Error executing userscript (ID: 0)''))
   \<and> map_option fst (executeScript demo_engine 0 (Ref 0) (script_world ''throw 1''))
     = Some (Inl (ScriptExecutionError ''Error executing userscript (ID: 0)''))
   \<and> map_option fst (executeScript demo_engine 1 (Ref 0) (script_world ''throw 1''))
     = Some (Inl (ScriptExecutionError ''Error executing userscript (ID: 1)''))"
  by (simp add: executeScript_def getScriptById_def script_world_eq executeInSandbox_object
      demo_engine_def show_nat_digits Let_def)

text \<open>
  C3, amended. A call of \<^verbatim>\<open>executeScript\<close> yields exactly one of a single result value
  and the error \<^verbatim>\<open>ScriptExecutionError\<close> with the message
  \<^verbatim>\<open>Error executing userscript (ID: <id>)\<close>, which carries no kind. For the script of
  the call: when it completes, the call returns its value; when it throws, when its
  run is cut off by the timeout, when the script does not exist, when its stored
  content is not a string and when the context cannot be made a sandbox, the call
  fails with that one error; and the call settles unless the result of this script is
  a promise that never settles.
\<close>

theorem executeScript_result_or_one_error:
  "(find (\<lambda>s. fst s = sid) (docs (userscripts w)) = None
      \<longrightarrow> executeScript js sid ctx w =
           Some (Inl (ScriptExecutionError
                  (''Error executing userscript (ID: '' @ show_nat sid @ '')'')), w))
   \<and> (find (\<lambda>s. fst s = sid) (docs (userscripts w)) = Some script
      \<longrightarrow> (\<forall>code. map_of (snd script) ''content'' \<noteq> Some (FStr code))
      \<longrightarrow> executeScript js sid ctx w =
           Some (Inl (ScriptExecutionError
                  (''Error executing userscript (ID: '' @ show_nat sid @ '')'')), w))
   \<and> (find (\<lambda>s. fst s = sid) (docs (userscripts w)) = Some script
      \<longrightarrow> map_of (snd script) ''content'' = Some (FStr code)
      \<longrightarrow> createContext (heap w) ctx = None
      \<longrightarrow> executeScript js sid ctx w =
           Some (Inl (ScriptExecutionError
                  (''Error executing userscript (ID: '' @ show_nat sid @ '')'')), w))
   \<and> (find (\<lambda>s. fst s = sid) (docs (userscripts w)) = Some script
      \<longrightarrow> map_of (snd script) ''content'' = Some (FStr code)
      \<longrightarrow> createContext (heap w) ctx = Some (g, hs)
      \<longrightarrow> (js code hs g = Completed v he
            \<longrightarrow> executeScript js sid ctx w = Some (Inr v, w\<lparr>heap := he\<rparr>))
        \<and> (js code hs g = Thrown err he
            \<longrightarrow> executeScript js sid ctx w =
                 Some (Inl (ScriptExecutionError
                        (''Error executing userscript (ID: '' @ show_nat sid @ '')'')),
                       w\<lparr>heap := he\<rparr>))
        \<and> (js code hs g = TimedOut he
            \<longrightarrow> executeScript js sid ctx w =
                 Some (Inl (ScriptExecutionError
                        (''Error executing userscript (ID: '' @ show_nat sid @ '')'')),
                       w\<lparr>heap := he\<rparr>))
        \<and> (js code hs g = Pending \<longrightarrow> executeScript js sid ctx w = None)
        \<and> (js code hs g \<noteq> Pending \<longrightarrow> executeScript js sid ctx w \<noteq> None))
   \<and> (executeScript js sid ctx w = None
      \<or> (\<exists>v w'. executeScript js sid ctx w = Some (Inr v, w'))
      \<or> (\<exists>w'. executeScript js sid ctx w =
            Some (Inl (ScriptExecutionError
                   (''Error executing userscript (ID: '' @ show_nat sid @ '')'')), w')))
   \<and> ((\<forall>c h g. js c h g \<noteq> Pending) \<longrightarrow> executeScript js sid ctx w \<noteq> None)"
proof (intro conjI impI)
  assume "find (\<lambda>s. fst s = sid) (docs (userscripts w)) = None"
  then show "executeScript js sid ctx w =
           Some (Inl (ScriptExecutionError
                  (''Error executing userscript (ID: '' @ show_nat sid @ '')'')), w)"
    by (simp add: executeScript_def getScriptById_def Let_def)
next
  assume "find (\<lambda>s. fst s = sid) (docs (userscripts w)) = Some script"
    and "\<forall>code. map_of (snd script) ''content'' \<noteq> Some (FStr code)"
  then show "executeScript js sid ctx w =
           Some (Inl (ScriptExecutionError
                  (''Error executing userscript (ID: '' @ show_nat sid @ '')'')), w)"
    by (simp add: executeScript_def getScriptById_def Let_def
        split: option.splits fval.splits)
next
  assume "find (\<lambda>s. fst s = sid) (docs (userscripts w)) = Some script"
    and "map_of (snd script) ''content'' = Some (FStr code)"
    and "createContext (heap w) ctx = None"
  then show "executeScript js sid ctx w =
           Some (Inl (ScriptExecutionError
                  (''Error executing userscript (ID: '' @ show_nat sid @ '')'')), w)"
    by (simp add: executeScript_def getScriptById_def executeInSandbox_def Let_def)
next
  assume "find (\<lambda>s. fst s = sid) (docs (userscripts w)) = Some script"
    and "map_of (snd script) ''content'' = Some (FStr code)"
    and "createContext (heap w) ctx = Some (g, hs)"
    and "js code hs g = Completed v he"
  then show "executeScript js sid ctx w = Some (Inr v, w\<lparr>heap := he\<rparr>)"
    by (simp add: executeScript_def getScriptById_def executeInSandbox_def Let_def)
next
  assume "find (\<lambda>s. fst s = sid) (docs (userscripts w)) = Some script"
    and "map_of (snd script) ''content'' = Some (FStr code)"
    and "createContext (heap w) ctx = Some (g, hs)"
    and "js code hs g = Thrown err he"
  then show "executeScript js sid ctx w =
                 Some (Inl (ScriptExecutionError
                        (''Error executing userscript (ID: '' @ show_nat sid @ '')'')),
                       w\<lparr>heap := he\<rparr>)"
    by (simp add: executeScript_def getScriptById_def executeInSandbox_def Let_def)
next
  assume "find (\<lambda>s. fst s = sid) (docs (userscripts w)) = Some script"
    and "map_of (snd script) ''content'' = Some (FStr code)"
    and "createContext (heap w) ctx = Some (g, hs)"
    and "js code hs g = TimedOut he"
  then show "executeScript js sid ctx w =
                 Some (Inl (ScriptExecutionError
                        (''Error executing userscript (ID: '' @ show_nat sid @ '')'')),
                       w\<lparr>heap := he\<rparr>)"
    by (simp add: executeScript_def getScriptById_def executeInSandbox_def Let_def)
next
  assume "find (\<lambda>s. fst s = sid) (docs (userscripts w)) = Some script"
    and "map_of (snd script) ''content'' = Some (FStr code)"
    and "createContext (heap w) ctx = Some (g, hs)"
    and "js code hs g = Pending"
  then show "executeScript js sid ctx w = None"
    by (simp add: executeScript_def getScriptById_def executeInSandbox_def Let_def)
next
  assume "find (\<lambda>s. fst s = sid) (docs (userscripts w)) = Some script"
    and "map_of (snd script) ''content'' = Some (FStr code)"
    and "createContext (heap w) ctx = Some (g, hs)"
    and "js code hs g \<noteq> Pending"
  then show "executeScript js sid ctx w \<noteq> None"
    by (cases "js code hs g")
      (simp_all add: executeScript_def getScriptById_def executeInSandbox_def Let_def)
next
  show "executeScript js sid ctx w = None
     \<or> (\<exists>v w'. executeScript js sid ctx w = Some (Inr v, w'))
     \<or> (\<exists>w'. executeScript js sid ctx w =
           Some (Inl (ScriptExecutionError
                  (''Error executing userscript (ID: '' @ show_nat sid @ '')'')), w'))"
    by (auto simp: executeScript_def getScriptById_def Let_def
        split: option.splits prod.splits sum.splits fval.splits)
next
  assume settles: "\<forall>c h g. js c h g \<noteq> Pending"
  have sandbox: "(executeInSandbox js c ctx w' = None) = False" for c w'
    using settles
    by (auto simp: executeInSandbox_def Let_def split: option.splits vm_outcome.splits)
  show "executeScript js sid ctx w \<noteq> None"
    by (simp add: executeScript_def getScriptById_def Let_def sandbox
        split: option.splits prod.splits sum.splits fval.splits)
qed

lemma script_world_lookup:
  assumes "code \<noteq> []"
  shows "find (\<lambda>s. fst s = 0) (docs (userscripts (script_world code)))
           = Some (0, [(''name'', FStr ''demo''), (''description'', FStr ''a script''),
                       (''content'', FStr code), (''createdAt'', FDate 1),
                       (''updatedAt'', FDate 1)])"
    and "find (\<lambda>s. fst s = Suc 0) (docs (userscripts (script_world code))) = None"
    and "heap (script_world code) = [[(''value'', Num 41)]]"
  using assms by (simp_all add: script_world_eq context_world_def initial_def)

theorem executeScript_result_or_one_error_witness:
  "executeScript demo_engine 0 (Ref 0) (script_world ''for(;;){}'')
     = Some (Inl (ScriptExecutionError ''Error executing userscript (ID: 0)''),
             (script_world ''for(;;){}'')\<lparr>heap := [[(''value'', Num 41)]]\<rparr>)
   \<and> executeScript demo_engine 0 (Ref 0) (script_world ''throw 1'')
     = Some (Inl (ScriptExecutionError ''Error executing userscript (ID: 0)''),
             (script_world ''throw 1'')\<lparr>heap := [[(''value'', Num 41)]]\<rparr>)
   \<and> executeScript demo_engine (Suc 0) (Ref 0) (script_world ''throw 1'')
     = Some (Inl (ScriptExecutionError ''Error executing userscript (ID: 1)''),
             script_world ''throw 1'')
   \<and> executeScript demo_engine 0 (Ref 0) (script_world ''value = 42'')
     = Some (Inr (Num 42), (script_world ''value = 42'')\<lparr>heap := [[(''value'', Num 42)]]\<rparr>)
   \<and> executeScript demo_engine 0 (Ref 0) (script_world ''new Promise(() => {})'') = None
   \<and> executeScript demo_engine 0 (Ref 0) (script_world ''value = 42'') \<noteq> None"
proof -
  let ?doc = "\<lambda>code. (0::nat, [(''name'', FStr ''demo''), (''description'', FStr ''a script''),
                       (''content'', FStr code), (''createdAt'', FDate 1),
                       (''updatedAt'', FDate 1)])"
  let ?h = "[[(''value'', Num 41)]]"
  have ctx: "createContext (heap (script_world code)) (Ref 0) = Some (0, ?h)"
    if "code \<noteq> []" for code
    using that by (simp add: script_world_lookup)
  have content: "map_of (snd (?doc code)) ''content'' = Some (FStr code)" for code
    by simp
  have e: "demo_engine ''for(;;){}'' ?h 0 = TimedOut ?h"
    "demo_engine ''throw 1'' ?h 0 = Thrown (Num 1) ?h"
    "demo_engine ''value = 42'' ?h 0 = Completed (Num 42) [[(''value'', Num 42)]]"
    "demo_engine ''new Promise(() => {})'' ?h 0 = Pending"
    "demo_engine ''value = 42'' ?h 0 \<noteq> Pending"
    by (simp_all add: demo_engine_def)
  have 1: "executeScript demo_engine 0 (Ref 0) (script_world ''for(;;){}'')
     = Some (Inl (ScriptExecutionError ''Error executing userscript (ID: 0)''),
             (script_world ''for(;;){}'')\<lparr>heap := ?h\<rparr>)"
    using executeScript_result_or_one_error[where js = demo_engine and sid = 0 and ctx = "Ref 0"
        and w = "script_world ''for(;;){}''" and script = "?doc ''for(;;){}''"
        and code = "''for(;;){}''" and g = 0 and hs = "?h" and he = "?h"]
      script_world_lookup(1)[of "''for(;;){}''"] ctx[of "''for(;;){}''"] content e(1)
    by (simp add: show_nat_digits)
  have 2: "executeScript demo_engine 0 (Ref 0) (script_world ''throw 1'')
     = Some (Inl (ScriptExecutionError ''Error executing userscript (ID: 0)''),
             (script_world ''throw 1'')\<lparr>heap := ?h\<rparr>)"
    using executeScript_result_or_one_error[where js = demo_engine and sid = 0 and ctx = "Ref 0"
        and w = "script_world ''throw 1''" and script = "?doc ''throw 1''"
        and code = "''throw 1''" and g = 0 and hs = "?h" and he = "?h" and err = "Num 1"]
      script_world_lookup(1)[of "''throw 1''"] ctx[of "''throw 1''"] content e(2)
    by (simp add: show_nat_digits)
  have 3: "executeScript demo_engine (Suc 0) (Ref 0) (script_world ''throw 1'')
     = Some (Inl (ScriptExecutionError ''Error executing userscript (ID: 1)''),
             script_world ''throw 1'')"
    using executeScript_result_or_one_error[where js = demo_engine and sid = "Suc 0" and ctx = "Ref 0"
        and w = "script_world ''throw 1''"]
      script_world_lookup(2)[of "''throw 1''"]
    by (simp add: show_nat_digits)
  have 4: "executeScript demo_engine 0 (Ref 0) (script_world ''value = 42'')
     = Some (Inr (Num 42), (script_world ''value = 42'')\<lparr>heap := [[(''value'', Num 42)]]\<rparr>)"
    using executeScript_result_or_one_error[where js = demo_engine and sid = 0 and ctx = "Ref 0"
        and w = "script_world ''value = 42''" and script = "?doc ''value = 42''"
        and code = "''value = 42''" and g = 0 and hs = "?h"
        and he = "[[(''value'', Num 42)]]" and v = "Num 42"]
      script_world_lookup(1)[of "''value = 42''"] ctx[of "''value = 42''"] content e(3)
    by simp
  have 5: "executeScript demo_engine 0 (Ref 0) (script_world ''new Promise(() => {})'') = None"
    using executeScript_result_or_one_error[where js = demo_engine and sid = 0 and ctx = "Ref 0"
        and w = "script_world ''new Promise(() => {})''"
        and script = "?doc ''new Promise(() => {})''"
        and code = "''new Promise(() => {})''" and g = 0 and hs = "?h"]
      script_world_lookup(1)[of "''new Promise(() => {})''"]
      ctx[of "''new Promise(() => {})''"] content e(4)
    by simp
  have 6: "executeScript demo_engine 0 (Ref 0) (script_world ''value = 42'') \<noteq> None"
    using executeScript_result_or_one_error[where js = demo_engine and sid = 0 and ctx = "Ref 0"
        and w = "script_world ''value = 42''" and script = "?doc ''value = 42''"
        and code = "''value = 42''" and g = 0 and hs = "?h"]
      script_world_lookup(1)[of "''value = 42''"] ctx[of "''value = 42''"] content e(5)
    by simp
  from 1 2 3 4 5 6 show ?thesis by (intro conjI)
qed

subsection \<open>Saving traffic through the configuration model\<close>

lemma map_of_field_other: "k \<noteq> k' \<Longrightarrow> map_of (field k v) k' = None"
  by (cases v) (simp_all add: field_def)

lemma configured_world_eq:
  "configured_world = (initial [])\<lparr>proxyConfigs :=
     \<lparr>docs = [(0, [(''targetHostname'', FStr ''example.com''), (''targetPort'', FNum 8080),
                   (''createdAt'', FDate 1), (''updatedAt'', FDate 1)])],
      next_id = 1\<rparr>\<rparr>"
  by (simp add: configured_world_def updateProxyConfig_def findOneAndUpdate_def initial_def
      empty_collection_def schema_eval Let_def)

lemma new_traffic_document:
  "new_model proxyConfigSchema now
     (field ''method'' a @ field ''url'' b @ field ''headers'' c @ field ''body'' d
      @ field ''statusCode'' e @ field ''responseHeaders'' f @ field ''responseBody'' g)
   = Some [(''createdAt'', FDate now), (''updatedAt'', FDate now)]"
  by (simp add: schema_eval map_add_def map_of_field_other)

lemma logProxyTraffic_fails:
  "logProxyTraffic now request response w =
     (Inl (ProxyTrafficLogError ''Error logging proxy traffic''), w)"
  unfolding logProxyTraffic_def new_traffic_document Let_def
  by (simp add: save_def validate_def path_ok_def required_ok_def proxyConfigSchema_def
      plain_path_def)

subsection \<open>Updating the configuration with an invalid hostname\<close>

text \<open>
  C8. The specification has an update with the hostname \<^verbatim>\<open>bad hostname!\<close> fail before
  any write. \<^verbatim>\<open>updateProxyConfig\<close> writes it over the stored configuration and returns
  normally: \<^verbatim>\<open>findOneAndUpdate\<close> is called without \<^verbatim>\<open>runValidators\<close>, so the schema's
  hostname pattern is never tried. Through the route, \<^verbatim>\<open>bad hostname\<close> passes the
  route's own pattern (its dot matches the space) and is written as well.
\<close>

theorem updateProxyConfig_stores_invalid_hostname:
  "\<not> hostname_ok ''bad hostname!''
   \<and> updateProxyConfig 5
        [(''targetHostname'', FStr ''bad hostname!''), (''targetPort'', FNum 80)]
        configured_world
      = (Inr (), configured_world\<lparr>proxyConfigs :=
          \<lparr>docs = [(0, [(''targetHostname'', FStr ''bad hostname!''), (''targetPort'', FNum 80),
                        (''createdAt'', FDate 1), (''updatedAt'', FDate 1)])],
           next_id = 1\<rparr>\<rparr>)
   \<and> \<not> hostname_ok ''bad hostname''
   \<and> controller_updateProxyConfig 5
        [(''targetHostname'', FStr ''bad hostname''), (''targetPort'', FNum 80)]
        configured_world
      = (Ok, configured_world\<lparr>proxyConfigs :=
          \<lparr>docs = [(0, [(''targetHostname'', FStr ''bad hostname''), (''targetPort'', FNum 80),
                        (''createdAt'', FDate 1), (''updatedAt'', FDate 1)])],
           next_id = 1\<rparr>\<rparr>)"
  by (simp add: controller_updateProxyConfig_def config_route_valid_def updateProxyConfig_def
      findOneAndUpdate_def configured_world_eq initial_def empty_collection_def schema_eval
      apply_update_def Let_def)

subsection \<open>Querying the traffic\<close>

text \<open>
  C6. The specification has the query return the stored traffic records of the date
  range. No traffic record is ever stored: \<^verbatim>\<open>logProxyTraffic\<close> saves through the
  \<^verbatim>\<open>ProxyConfig\<close> model, whose schema has none of the seven fields and requires a
  hostname and a port, so the save fails; and \<^verbatim>\<open>getProxyTraffic\<close> reads the
  \<^verbatim>\<open>ProxyConfig\<close> collection, so a query over the dates 0 to 10 returns the
  configuration document. Its URL filter is matched against a field \<^verbatim>\<open>targetUrl\<close>,
  while the record's field is \<^verbatim>\<open>url\<close>: a record with the URL \<^verbatim>\<open>/api/data\<close> is not
  found by the filter \<^verbatim>\<open>api\<close>.
\<close>

theorem getProxyTraffic_returns_configuration_not_traffic:
  "logProxyTraffic 6
     [(''method'', FStr ''GET''), (''url'', FStr ''/api/data''), (''headers'', FObj [])]
     [(''statusCode'', FNum 200), (''headers'', FObj [])] configured_world
     = (Inl (ProxyTrafficLogError ''Error logging proxy traffic''), configured_world)
   \<and> fst (getProxyTraffic literal_regExp example_filters configured_world)
     = Inr [(0, [(''targetHostname'', FStr ''example.com''), (''targetPort'', FNum 8080),
                 (''createdAt'', FDate 1), (''updatedAt'', FDate 1)])]
   \<and> fst (getProxyTraffic literal_regExp (example_filters\<lparr>targetUrl := Some ''api''\<rparr>)
          traffic_world) = Inr []"
  by (simp add: logProxyTraffic_fails getProxyTraffic_def example_filters_def
      configured_world_eq traffic_world_def initial_def empty_collection_def matches_def
      sort_newest_def created_def limit_to_def literal_regExp_def alnum_def Let_def)

subsection \<open>Which operations touch which collection\<close>









subsection \<open>The configuration document\<close>













subsection \<open>Script names\<close>





















end
